theory Spec2Isabelle
  imports Complex_Main "HOL-Library.AList"
begin

section \<open>The retirement projector: data model\<close>

text \<open>
  The program is \<^verbatim>\<open>retirement-projector.py\<close>. Its amounts and rates are Python
  numbers (\<^verbatim>\<open>int\<close> from the integer inputs, \<^verbatim>\<open>float\<close> from the rate inputs);
  they are embedded as \<^typ>\<open>real\<close>, so that \<^verbatim>\<open>+\<close>, \<^verbatim>\<open>*\<close> and \<^verbatim>\<open>/\<close> are the exact
  operations and rounding of binary floating point is not part of the model.
  Horizons are Python \<^verbatim>\<open>int\<close>, embedded as \<^typ>\<open>int\<close>.

  An accumulation portfolio is the dictionary
  \<^verbatim>\<open>{"name": ..., "initial": ..., "annual": ..., "rate": ...}\<close> of
  \<^verbatim>\<open>st.session_state.portfolios\<close>; a retirement asset is the dictionary
  \<^verbatim>\<open>{"name": ..., "allocation": ..., "rate": ...}\<close> of
  \<^verbatim>\<open>st.session_state.retirement_portfolios\<close>. The fields of the second record carry
  the prefix \<open>r_\<close> where the key is also a key of the first.
\<close>

record portfolio =
  name :: string
  initial :: real
  annual :: real
  rate :: real

record retirement_portfolio =
  r_name :: string
  allocation :: real
  r_rate :: real

text \<open>The exceptions the modelled statements can raise.\<close>

datatype exn = ZeroDivisionError | IndexError

subsection \<open>Strings\<close>

text \<open>
  Names are \<^typ>\<open>string\<close>s whose characters are the code points below 256.
  \<^verbatim>\<open>str.strip()\<close> removes leading and trailing whitespace; in that range Python's
  whitespace characters are the code points 9 to 13, 28 to 32, 133 and 160.
\<close>

definition isspace :: "char \<Rightarrow> bool" where
  "isspace c = (of_char c \<in> {9, 10, 11, 12, 13, 28, 29, 30, 31, 32, 133, 160 :: nat})"

definition strip :: "string \<Rightarrow> string" where
  "strip s = rev (dropWhile isspace (rev (dropWhile isspace s)))"

section \<open>Config validation\<close>

text \<open>
  \<^verbatim>\<open>validate_portfolios\<close> (lines 398 to 407) walks the list and returns
  \<^verbatim>\<open>False\<close> at the first offending portfolio; after the loop it returns \<^verbatim>\<open>True\<close>.
  The session state it reads is the argument here.
\<close>

fun validate_portfolios :: "portfolio list \<Rightarrow> bool" where
  "validate_portfolios [] = True"
| "validate_portfolios (p # ps) =
     (if strip (name p) = [] then False
      else if initial p < 0 \<or> annual p < 0 \<or> rate p < 0 then False
      else if initial p = 0 \<and> annual p = 0 then False
      else validate_portfolios ps)"



section \<open>Accumulation summary\<close>

text \<open>
  Lines 223 to 225 of \<^verbatim>\<open>main\<close>. Python's \<^verbatim>\<open>/\<close> raises
  \<^verbatim>\<open>ZeroDivisionError\<close> on a zero divisor; the conditional expression evaluates the
  quotient only when \<^verbatim>\<open>total_initial > 0\<close>.
\<close>

definition truediv :: "real \<Rightarrow> real \<Rightarrow> exn + real" where
  "truediv a b = (if b = 0 then Inl ZeroDivisionError else Inr (a / b))"

definition total_initial :: "portfolio list \<Rightarrow> real" where
  "total_initial ps = sum_list (map initial ps)"

definition total_annual :: "portfolio list \<Rightarrow> real" where
  "total_annual ps = sum_list (map annual ps)"

definition weighted_rate :: "portfolio list \<Rightarrow> exn + real" where
  "weighted_rate ps =
     (if total_initial ps > 0
      then truediv (sum_list (map (\<lambda>p. initial p * rate p) ps)) (total_initial ps)
      else Inr 0)"

section \<open>Accumulation simulator\<close>

text \<open>
  \<^verbatim>\<open>calculate_portfolio_growth\<close> (lines 443 to 466). For each year of
  \<^verbatim>\<open>range(years + 1)\<close> and each portfolio the value is recomputed from
  \<^verbatim>\<open>portfolio["initial"]\<close> by \<^verbatim>\<open>year\<close> rounds of
  \<^verbatim>\<open>value = (value + portfolio["annual"]) * (1 + portfolio["rate"])\<close>.
\<close>

definition component_value :: "portfolio \<Rightarrow> nat \<Rightarrow> real" where
  "component_value p year =
     (if year = 0 then initial p
      else foldl (\<lambda>value y. (value + annual p) * (1 + rate p)) (initial p) [0..<year])"

text \<open>
  A row is the dictionary \<^verbatim>\<open>year_data\<close>: an association list in insertion order,
  where storing under a key that is present replaces the value in place, as a Python
  \<^verbatim>\<open>dict\<close> does. The loop over the portfolios stores each value under the
  portfolio's name and adds it to \<^verbatim>\<open>total_value\<close>.
\<close>

type_synonym row = "(string \<times> real) list"

fun portfolios_loop :: "nat \<Rightarrow> portfolio list \<Rightarrow> row \<times> real \<Rightarrow> row \<times> real" where
  "portfolios_loop year [] acc = acc"
| "portfolios_loop year (p # ps) (year_data, total_value) =
     (let value = component_value p year
      in portfolios_loop year ps (AList.update (name p) value year_data, total_value + value))"

definition year_row :: "portfolio list \<Rightarrow> nat \<Rightarrow> row" where
  "year_row portfolios year =
     (case portfolios_loop year portfolios ([(''Year'', of_nat year)], 0) of
        (year_data, total_value) \<Rightarrow> AList.update ''Total'' total_value year_data)"

definition calculate_portfolio_growth :: "portfolio list \<Rightarrow> int \<Rightarrow> row list" where
  "calculate_portfolio_growth portfolios years =
     map (year_row portfolios) [0..<nat (years + 1)]"

section \<open>Retirement simulator and scenario aggregator\<close>

text \<open>
  The inner loop of \<^verbatim>\<open>calculate_withdrawal_scenarios\<close> (lines 485 to 494). Its state
  is \<^verbatim>\<open>current_value\<close> and the list \<^verbatim>\<open>portfolio_values\<close>. In year 0 the current
  value is appended as it is; in every later year the current value is replaced by
  \<^verbatim>\<open>(current_value - annual_withdrawal) * (1 + blended_growth_rate)\<close> and
  \<^verbatim>\<open>max(0, current_value)\<close> is appended, while \<^verbatim>\<open>current_value\<close> itself keeps its
  sign.
\<close>

fun retirement_loop ::
  "real \<Rightarrow> real \<Rightarrow> nat list \<Rightarrow> real \<times> real list \<Rightarrow> real \<times> real list" where
  "retirement_loop annual_withdrawal blended_growth_rate [] st = st"
| "retirement_loop annual_withdrawal blended_growth_rate (year # years)
       (current_value, portfolio_values) =
     (if year = 0
      then retirement_loop annual_withdrawal blended_growth_rate years
             (current_value, portfolio_values @ [current_value])
      else let current_value' = (current_value - annual_withdrawal) * (1 + blended_growth_rate)
           in retirement_loop annual_withdrawal blended_growth_rate years
                (current_value', portfolio_values @ [max 0 current_value']))"

definition drawdown :: "real \<Rightarrow> real \<Rightarrow> real \<Rightarrow> int \<Rightarrow> real list" where
  "drawdown final_portfolio_value annual_withdrawal blended_growth_rate retirement_years =
     snd (retirement_loop annual_withdrawal blended_growth_rate
            [0..<nat (retirement_years + 1)] (final_portfolio_value, []))"

text \<open>
  The scenario name is \<^verbatim>\<open>f"{rate:.1%}"\<close>: the rate times 100 in fixed notation with
  one digit after the point, rounded to nearest with ties to even, a minus sign for a
  negative rate, and a percent sign.
\<close>

definition round_half_even :: "real \<Rightarrow> int" where
  "round_half_even x =
     (let f = \<lfloor>x\<rfloor>; d = x - of_int f
      in if d < 1 / 2 then f else if d > 1 / 2 then f + 1 else if even f then f else f + 1)"

fun decimal :: "nat \<Rightarrow> string" where
  "decimal n = (if n < 10 then [''0123456789'' ! n]
                else decimal (n div 10) @ [''0123456789'' ! (n mod 10)])"

definition percent1 :: "real \<Rightarrow> string" where
  "percent1 x =
     (let n = nat (round_half_even (\<bar>x\<bar> * 1000))
      in (if x < 0 then ''-'' else []) @ decimal (n div 10) @ ''.'' @ decimal (n mod 10) @ ''%'')"

text \<open>
  A scenario is the dictionary stored under the scenario name. \<^verbatim>\<open>portfolio_values[-1]\<close>
  raises \<^verbatim>\<open>IndexError\<close> on the empty list.
\<close>

record scenario =
  annual_withdrawal :: real
  monthly_withdrawal :: real
  portfolio_values :: "real list"
  final_value :: real
  blended_rate :: real

definition last_item :: "'a list \<Rightarrow> exn + 'a" where
  "last_item xs = (if xs = [] then Inl IndexError else Inr (last xs))"

definition blended_growth_rate :: "retirement_portfolio list \<Rightarrow> real" where
  "blended_growth_rate retirement_portfolios =
     sum_list (map (\<lambda>p. allocation p * r_rate p) retirement_portfolios)"

text \<open>The body of the loop over the withdrawal rates, up to the store into \<^verbatim>\<open>scenarios\<close>.\<close>

definition scenario_of :: "real \<Rightarrow> real \<Rightarrow> int \<Rightarrow> real \<Rightarrow> exn + scenario" where
  "scenario_of final_portfolio_value blended retirement_years rate' =
     (let annual_withdrawal' = final_portfolio_value * rate';
          portfolio_values' =
            drawdown final_portfolio_value annual_withdrawal' blended retirement_years
      in case last_item portfolio_values' of
           Inl e \<Rightarrow> Inl e
         | Inr final \<Rightarrow>
             Inr \<lparr>annual_withdrawal = annual_withdrawal',
                  monthly_withdrawal = annual_withdrawal' / 12,
                  portfolio_values = portfolio_values',
                  final_value = final,
                  blended_rate = blended\<rparr>)"

fun rates_loop ::
  "real \<Rightarrow> real \<Rightarrow> int \<Rightarrow> real list \<Rightarrow> (string \<times> scenario) list
     \<Rightarrow> exn + (string \<times> scenario) list" where
  "rates_loop final_portfolio_value blended retirement_years [] scenarios = Inr scenarios"
| "rates_loop final_portfolio_value blended retirement_years (rate' # rates) scenarios =
     (case scenario_of final_portfolio_value blended retirement_years rate' of
        Inl e \<Rightarrow> Inl e
      | Inr s \<Rightarrow> rates_loop final_portfolio_value blended retirement_years rates
                  (AList.update (percent1 rate') s scenarios))"

definition calculate_withdrawal_scenarios ::
  "real \<Rightarrow> real list \<Rightarrow> int \<Rightarrow> retirement_portfolio list
     \<Rightarrow> exn + (string \<times> scenario) list" where
  "calculate_withdrawal_scenarios final_portfolio_value withdrawal_rates retirement_years
       retirement_portfolios =
     rates_loop final_portfolio_value (blended_growth_rate retirement_portfolios)
       retirement_years withdrawal_rates []"

section \<open>Configuration export\<close>








section \<open>Auxiliary notions\<close>

text \<open>
  The value of \<^verbatim>\<open>current_value\<close> after \<open>y\<close> rounds of the retirement loop: the
  running balance before the floor is applied to what is recorded.
\<close>

definition balance :: "real \<Rightarrow> real \<Rightarrow> real \<Rightarrow> nat \<Rightarrow> real" where
  "balance s w b y = ((\<lambda>c. (c - w) * (1 + b)) ^^ y) s"

section \<open>Properties of the validators\<close>

lemma all_dropWhile: "(\<forall>c \<in> set (dropWhile P s). P c) \<longleftrightarrow> (\<forall>c \<in> set s. P c)"
  by (induction s) auto

lemma strip_empty_iff: "strip s = [] \<longleftrightarrow> (\<forall>c \<in> set s. isspace c)"
  by (simp add: strip_def all_dropWhile)

lemma validate_portfolios_iff:
  "validate_portfolios ps \<longleftrightarrow>
     (\<forall>p \<in> set ps. (\<exists>c \<in> set (name p). \<not> isspace c) \<and> 0 \<le> initial p \<and> 0 \<le> annual p
        \<and> 0 \<le> rate p \<and> \<not> (initial p = 0 \<and> annual p = 0))"
  by (induction ps) (auto simp: strip_empty_iff)


text \<open>
  Claim C3 says that the empty portfolio list is invalid. On the empty list the loop of
  \<^verbatim>\<open>validate_portfolios\<close> has no iteration and the function returns \<^verbatim>\<open>True\<close>, whereas
  \<^verbatim>\<open>validate_retirement_portfolios\<close> tests for the empty list first and returns
  \<^verbatim>\<open>False\<close>. On every list the result is that of the per-portfolio tests
  (lemma \<open>validate_portfolios_iff\<close>).
\<close>

theorem validate_portfolios_empty:
  "validate_portfolios [] = True"
  by simp



text \<open>
  Claim C8. When the total initial value is 0 the weighted initial growth rate is 0 and
  no division takes place; for no portfolio list does the computation raise
  \<^verbatim>\<open>ZeroDivisionError\<close>.
\<close>

theorem weighted_rate_zero_total:
  "(total_initial ps = 0 \<longrightarrow> weighted_rate ps = Inr 0)
   \<and> weighted_rate ps \<noteq> Inl ZeroDivisionError"
  by (simp add: weighted_rate_def truediv_def)

text \<open>
  The theorem at one valid portfolio with initial value 0 and an annual contribution
  of 500.
\<close>

theorem weighted_rate_zero_total_witness:
  "validate_portfolios [\<lparr>name = ''Pension'', initial = 0, annual = 500, rate = 7 / 100\<rparr>]
   \<and> total_initial [\<lparr>name = ''Pension'', initial = 0, annual = 500, rate = 7 / 100\<rparr>] = 0
   \<and> weighted_rate [\<lparr>name = ''Pension'', initial = 0, annual = 500, rate = 7 / 100\<rparr>] = Inr 0"
  using weighted_rate_zero_total
    [of "[\<lparr>name = ''Pension'', initial = 0, annual = 500, rate = 7 / 100\<rparr>]"]
  by (simp add: total_initial_def strip_def isspace_def)

section \<open>Properties of the accumulation simulator\<close>

lemma component_value_0: "component_value p 0 = initial p"
  by (simp add: component_value_def)

lemma component_value_Suc:
  "component_value p (Suc y) = (component_value p y + annual p) * (1 + rate p)"
  by (cases y) (simp_all add: component_value_def)

lemma portfolios_loop_total:
  "snd (portfolios_loop year ps (year_data, total_value)) =
     total_value + (\<Sum>p\<leftarrow>ps. component_value p year)"
  by (induction ps arbitrary: year_data total_value) (simp_all add: Let_def add.assoc)



lemma year_row_total:
  "map_of (year_row ps year) ''Total'' = Some (\<Sum>p\<leftarrow>ps. component_value p year)"
proof -
  obtain yd t where l: "portfolios_loop year ps ([(''Year'', of_nat year)], 0) = (yd, t)"
    by (cases "portfolios_loop year ps ([(''Year'', of_nat year)], 0)")
  have "t = (\<Sum>p\<leftarrow>ps. component_value p year)"
    using portfolios_loop_total[of year ps "[(''Year'', of_nat year)]" 0] l by simp
  then show ?thesis by (simp add: year_row_def l AList.update_conv')
qed






lemma growth_nth:
  "int y \<le> years \<Longrightarrow> calculate_portfolio_growth ps years ! y = year_row ps y"
  by (simp add: calculate_portfolio_growth_def)

lemma component_value_nonneg:
  assumes "0 \<le> initial p" "0 \<le> annual p" "0 \<le> rate p"
  shows "0 \<le> component_value p y"
  using assms by (induction y) (simp_all add: component_value_0 component_value_Suc)

lemma component_value_mono:
  assumes "0 \<le> initial p" "0 \<le> annual p" "0 \<le> rate p"
  shows "component_value p y \<le> component_value p (Suc y)"
proof -
  have v: "0 \<le> component_value p y" using assms by (rule component_value_nonneg)
  have "component_value p y \<le> component_value p y + annual p" using assms by simp
  also have "\<dots> = (component_value p y + annual p) * 1" by simp
  also have "\<dots> \<le> (component_value p y + annual p) * (1 + rate p)"
    using v assms by (intro mult_left_mono) simp_all
  finally show ?thesis by (simp add: component_value_Suc)
qed




text \<open>
  Claim C7. When every growth rate, annual contribution and initial value is
  non-negative, the total of each row is at most the total of the next row.
\<close>

theorem total_monotone:
  assumes "\<forall>p \<in> set ps. 0 \<le> rate p \<and> 0 \<le> annual p \<and> 0 \<le> initial p"
    and "int (Suc y) \<le> years"
  shows "\<exists>t t'. map_of (calculate_portfolio_growth ps years ! y) ''Total'' = Some t
           \<and> map_of (calculate_portfolio_growth ps years ! Suc y) ''Total'' = Some t'
           \<and> t \<le> t'"
proof -
  have y: "int y \<le> years" using assms(2) by simp
  have "(\<Sum>p\<leftarrow>ps. component_value p y) \<le> (\<Sum>p\<leftarrow>ps. component_value p (Suc y))"
    using assms(1) by (intro sum_list_mono component_value_mono) simp_all
  then show ?thesis
    using y assms(2) by (simp add: growth_nth year_row_total del: of_nat_Suc)
qed

text \<open>
  The theorem for one portfolio of 50000 with 10000 a year at 7 percent, between
  year 0 and year 1.
\<close>

theorem total_monotone_witness:
  "0 \<le> rate \<lparr>name = ''A'', initial = 50000, annual = 10000, rate = 7 / 100\<rparr>
   \<and> 0 \<le> annual \<lparr>name = ''A'', initial = 50000, annual = 10000, rate = 7 / 100\<rparr>
   \<and> 0 \<le> initial \<lparr>name = ''A'', initial = 50000, annual = 10000, rate = 7 / 100\<rparr>
   \<and> int (Suc 0) \<le> 1
   \<and> (\<exists>t t'. map_of (calculate_portfolio_growth
                  [\<lparr>name = ''A'', initial = 50000, annual = 10000, rate = 7 / 100\<rparr>] 1 ! 0)
                ''Total'' = Some t
           \<and> map_of (calculate_portfolio_growth
                  [\<lparr>name = ''A'', initial = 50000, annual = 10000, rate = 7 / 100\<rparr>] 1 ! Suc 0)
                ''Total'' = Some t'
           \<and> t \<le> t')"
  using total_monotone
    [of "[\<lparr>name = ''A'', initial = 50000, annual = 10000, rate = 7 / 100\<rparr>]" 0 1]
  by simp

section \<open>Properties of the retirement loop\<close>

lemma balance_0: "balance s w b 0 = s"
  by (simp add: balance_def)

lemma balance_Suc: "balance s w b (Suc y) = (balance s w b y - w) * (1 + b)"
  by (simp add: balance_def)

lemma retirement_loop_append:
  "retirement_loop w b (xs @ ys) st = retirement_loop w b ys (retirement_loop w b xs st)"
proof (induction xs arbitrary: st)
  case Nil
  show ?case by simp
next
  case (Cons x xs)
  obtain c vs where st: "st = (c, vs)" by (cases st)
  show ?case unfolding st using Cons.IH by (simp add: Let_def)
qed

lemma retirement_loop_upt:
  "retirement_loop w b [0..<Suc n] (s, []) =
     (balance s w b n, s # map (\<lambda>y. max 0 (balance s w b y)) [1..<Suc n])"
proof (induction n)
  case 0
  show ?case by (simp add: balance_0)
next
  case (Suc n)
  have "retirement_loop w b [0..<Suc (Suc n)] (s, []) =
        retirement_loop w b [Suc n] (retirement_loop w b [0..<Suc n] (s, []))"
    by (metis retirement_loop_append upt_Suc_append zero_le)
  also have "\<dots> = (balance s w b (Suc n),
                   s # map (\<lambda>y. max 0 (balance s w b y)) [1..<Suc (Suc n)])"
    unfolding Suc.IH by (simp add: Let_def balance_Suc)
  finally show ?case .
qed

lemma drawdown_eq:
  assumes "0 \<le> years"
  shows "drawdown s w b years = s # map (\<lambda>y. max 0 (balance s w b y)) [1..<Suc (nat years)]"
proof -
  have "nat (years + 1) = Suc (nat years)" using assms by simp
  then show ?thesis by (simp add: drawdown_def retirement_loop_upt del: upt_Suc)
qed

lemma drawdown_neg: "years < 0 \<Longrightarrow> drawdown s w b years = []"
  by (simp add: drawdown_def)

lemma length_drawdown: "length (drawdown s w b years) = nat (years + 1)"
  by (cases "0 \<le> years") (simp_all add: drawdown_eq drawdown_neg del: upt_Suc)

lemma drawdown_nth_0: "0 \<le> years \<Longrightarrow> drawdown s w b years ! 0 = s"
  by (simp add: drawdown_eq del: upt_Suc)

lemma drawdown_nth:
  assumes "0 \<le> years" "1 \<le> y" "y \<le> nat years"
  shows "drawdown s w b years ! y = max 0 (balance s w b y)"
proof -
  obtain k where k: "y = Suc k" using assms(2) by (cases y) auto
  have "k < length [1..<Suc (nat years)]" using assms k by simp
  then show ?thesis using assms k by (simp add: drawdown_eq del: upt_Suc)
qed

lemma balance_nonpos_step:
  assumes "0 \<le> w" "0 \<le> b" "balance s w b y \<le> 0"
  shows "balance s w b (Suc y) \<le> 0"
proof -
  have "balance s w b y - w \<le> 0" using assms by simp
  moreover have "0 \<le> 1 + b" using assms by simp
  ultimately show ?thesis unfolding balance_Suc by (rule mult_nonpos_nonneg)
qed

lemma balance_nonpos_later:
  assumes "0 \<le> w" "0 \<le> b" "balance s w b y \<le> 0" "y \<le> z"
  shows "balance s w b z \<le> 0"
  using assms(4) assms(3)
proof (induction z rule: dec_induct)
  case base
  then show ?case .
next
  case (step n)
  then show ?case using balance_nonpos_step[OF assms(1,2)] by blast
qed

lemma balance_zero_start: "balance 0 0 b y = 0"
  by (induction y) (simp_all add: balance_0 balance_Suc)

lemma drawdown_step_clamped:
  assumes w: "0 \<le> w" and b: "0 \<le> b" and yrs: "0 \<le> years"
    and y1: "1 \<le> y" and y2: "int y \<le> years"
  shows "drawdown s w b years ! y = max 0 ((drawdown s w b years ! (y - 1) - w) * (1 + b))"
proof -
  obtain k where k: "y = Suc k" using y1 by (cases y) auto
  have yn: "y \<le> nat years" using y2 by simp
  have cur: "drawdown s w b years ! y = max 0 ((balance s w b k - w) * (1 + b))"
    using drawdown_nth[OF yrs y1 yn] by (simp add: k balance_Suc)
  show ?thesis
  proof (cases "k = 0")
    case True
    then show ?thesis using cur drawdown_nth_0[OF yrs] by (simp add: k balance_0)
  next
    case False
    then have prev: "drawdown s w b years ! (y - 1) = max 0 (balance s w b k)"
      using drawdown_nth[OF yrs, of k] yn k by simp
    show ?thesis
    proof (cases "0 \<le> balance s w b k")
      case True
      then show ?thesis using cur prev by simp
    next
      case neg: False
      have "(balance s w b k - w) * (1 + b) \<le> 0"
        using neg w b by (intro mult_nonpos_nonneg) simp_all
      moreover have "(0 - w) * (1 + b) \<le> 0"
        using w b by (intro mult_nonpos_nonneg) simp_all
      ultimately show ?thesis using cur prev neg by (simp add: max_def)
    qed
  qed
qed

lemma drawdown_zero_stays:
  assumes s: "0 \<le> s" and r: "0 \<le> r" and b: "0 \<le> b" and yrs: "0 \<le> years"
    and yz: "y \<le> z" and z: "int z \<le> years"
    and zero: "drawdown s (s * r) b years ! y = 0"
  shows "drawdown s (s * r) b years ! z = 0"
proof -
  have w: "0 \<le> s * r" using s r by simp
  have zn: "z \<le> nat years" using z by simp
  show ?thesis
  proof (cases "z = 0")
    case True
    then show ?thesis using yz zero by simp
  next
    case znz: False
    have "balance s (s * r) b z \<le> 0"
    proof (cases "y = 0")
      case True
      then have "s = 0" using zero drawdown_nth_0[OF yrs] by simp
      then show ?thesis by (simp add: balance_zero_start)
    next
      case False
      then have "max 0 (balance s (s * r) b y) = 0"
        using zero drawdown_nth[OF yrs, of y] yz zn by simp
      then have "balance s (s * r) b y \<le> 0" by (simp add: max_def split: if_splits)
      then show ?thesis using balance_nonpos_later[OF w b _ yz] by blast
    qed
    then show ?thesis using drawdown_nth[OF yrs, of z] znz zn by simp
  qed
qed

text \<open>
  Claim C1, as amended. For every starting value \<open>s \<ge> 0\<close>, blended rate \<open>b \<ge> 0\<close>,
  withdrawal rate \<open>r \<ge> 0\<close> and horizon \<open>years \<ge> 0\<close>, the trajectory recorded by the
  retirement loop with the fixed withdrawal \<open>s * r\<close> has \<open>years + 1\<close> entries; entry 0 is
  \<open>s\<close> itself; every entry \<open>y\<close> in \<open>1..years\<close> is the previous entry minus the
  withdrawal, times \<open>1 + b\<close>, floored at 0; and once an entry is 0 every later entry
  is 0.
\<close>

theorem drawdown_trajectory:
  assumes "0 \<le> s" and "0 \<le> b" and "0 \<le> r" and "0 \<le> years"
  shows "int (length (drawdown s (s * r) b years)) = years + 1
    \<and> drawdown s (s * r) b years ! 0 = s
    \<and> (1 \<le> y \<and> int y \<le> years \<longrightarrow>
         drawdown s (s * r) b years ! y =
           max 0 ((drawdown s (s * r) b years ! (y - 1) - s * r) * (1 + b)))
    \<and> (y \<le> z \<and> int z \<le> years \<and> drawdown s (s * r) b years ! y = 0 \<longrightarrow>
         drawdown s (s * r) b years ! z = 0)"
proof -
  have w: "0 \<le> s * r" using assms by simp
  have "int (length (drawdown s (s * r) b years)) = years + 1"
    using assms(4) by (simp add: length_drawdown)
  moreover have "drawdown s (s * r) b years ! 0 = s"
    using assms(4) by (rule drawdown_nth_0)
  moreover have "1 \<le> y \<and> int y \<le> years \<longrightarrow>
         drawdown s (s * r) b years ! y =
           max 0 ((drawdown s (s * r) b years ! (y - 1) - s * r) * (1 + b))"
    using drawdown_step_clamped[OF w assms(2) assms(4)] by blast
  moreover have "y \<le> z \<and> int z \<le> years \<and> drawdown s (s * r) b years ! y = 0 \<longrightarrow>
         drawdown s (s * r) b years ! z = 0"
    using drawdown_zero_stays[OF assms(1) assms(3) assms(2) assms(4)] by blast
  ultimately show ?thesis by blast
qed

text \<open>
  The theorem at \<open>s = 1000\<close>, \<open>b = 0\<close>, \<open>r = 1/2\<close>, three years, for the years 2 and 3:
  the trajectory is 1000, 500, 0, 0.
\<close>

theorem drawdown_trajectory_witness:
  "(0::real) \<le> 1000 \<and> (0::real) \<le> 0 \<and> (0::real) \<le> 1 / 2 \<and> (0::int) \<le> 3
   \<and> int (length (drawdown 1000 (1000 * (1 / 2)) 0 3)) = 3 + 1
   \<and> drawdown 1000 (1000 * (1 / 2)) 0 3 ! 0 = 1000
   \<and> drawdown 1000 (1000 * (1 / 2)) 0 3 ! 2 =
       max 0 ((drawdown 1000 (1000 * (1 / 2)) 0 3 ! (2 - 1) - 1000 * (1 / 2)) * (1 + 0))
   \<and> drawdown 1000 (1000 * (1 / 2)) 0 3 ! 2 = 0
   \<and> drawdown 1000 (1000 * (1 / 2)) 0 3 ! 3 = 0"
proof -
  have d: "drawdown 1000 500 0 3 = [1000, 500, 0, 0]"
    by code_simp
  show ?thesis
    using drawdown_trajectory [of 1000 0 "1 / 2" 3 2 3] by (simp add: d)
qed

text \<open>
  Claim C1 as written ranges over every starting value. At \<open>s = - 1\<close>, \<open>b = 0\<close>,
  \<open>r = 1/2\<close> the withdrawal is \<open>- 1/2\<close>, the running balance is - 1, - 1/2, 0, 1/2 and
  the recorded trajectory is - 1, 0, 0, 1/2: entry 1 is 0 and entry 3 is not, and entry 2
  is not the floored successor of entry 1, which would be 1/2.
\<close>

theorem drawdown_negative_start_counterexample:
  "(0::real) \<le> 0 \<and> (0::real) \<le> 1 / 2 \<and> (0::int) \<le> 3
   \<and> drawdown (- 1) (- 1 * (1 / 2)) 0 3 ! 1 = 0
   \<and> drawdown (- 1) (- 1 * (1 / 2)) 0 3 ! 3 \<noteq> 0
   \<and> drawdown (- 1) (- 1 * (1 / 2)) 0 3 ! 2 \<noteq>
       max 0 ((drawdown (- 1) (- 1 * (1 / 2)) 0 3 ! (2 - 1) - (- 1) * (1 / 2)) * (1 + 0))"
proof -
  have d: "drawdown (- 1) (- (1 / 2)) 0 3 = [- 1, 0, 0, 1 / 2]"
    by code_simp
  show ?thesis by (simp add: d)
qed

section \<open>Properties of the scenario aggregator\<close>

lemma drawdown_nonempty: "0 \<le> years \<Longrightarrow> drawdown s w b years \<noteq> []"
  by (simp add: drawdown_eq del: upt_Suc)

lemma scenario_of_Inr:
  assumes "0 \<le> years"
  shows "scenario_of v b years r =
     Inr \<lparr>annual_withdrawal = v * r, monthly_withdrawal = v * r / 12,
          portfolio_values = drawdown v (v * r) b years,
          final_value = last (drawdown v (v * r) b years), blended_rate = b\<rparr>"
  using drawdown_nonempty[OF assms] by (simp add: scenario_of_def last_item_def Let_def)

lemma scenario_of_fields:
  assumes "scenario_of v b years r = Inr sc"
  shows "annual_withdrawal sc = v * r \<and> monthly_withdrawal sc = v * r / 12
     \<and> portfolio_values sc = drawdown v (v * r) b years
     \<and> portfolio_values sc \<noteq> []
     \<and> final_value sc = last (portfolio_values sc) \<and> blended_rate sc = b"
  using assms
  by (auto simp: scenario_of_def last_item_def Let_def split: if_splits)

lemma scenario_of_years:
  assumes "scenario_of v b years r = Inr sc"
  shows "0 \<le> years"
proof (rule ccontr)
  assume "\<not> 0 \<le> years"
  then have "drawdown v (v * r) b years = []" by (simp add: drawdown_neg)
  then show False using assms by (simp add: scenario_of_def last_item_def Let_def)
qed

lemma rates_loop_total:
  assumes "0 \<le> years"
  shows "\<exists>res. rates_loop v b years rates sc0 = Inr res"
  by (induction rates arbitrary: sc0) (simp_all add: scenario_of_Inr[OF assms])

lemma set_update_subset: "set (AList.update k v al) \<subseteq> insert (k, v) (set al)"
  by (induction al) auto

lemma rates_loop_entries:
  assumes "rates_loop v b years rates sc0 = Inr res" and "(l, sc) \<in> set res"
  shows "(l, sc) \<in> set sc0
     \<or> (\<exists>r \<in> set rates. l = percent1 r \<and> scenario_of v b years r = Inr sc)"
  using assms
proof (induction rates arbitrary: sc0)
  case Nil
  then show ?case by simp
next
  case (Cons r rates)
  from Cons.prems(1) obtain s where s: "scenario_of v b years r = Inr s"
    and rest: "rates_loop v b years rates (AList.update (percent1 r) s sc0) = Inr res"
    by (auto split: sum.splits)
  from Cons.IH[OF rest Cons.prems(2)]
  have "(l, sc) \<in> set (AList.update (percent1 r) s sc0)
     \<or> (\<exists>r \<in> set rates. l = percent1 r \<and> scenario_of v b years r = Inr sc)" .
  then show ?case
  proof
    assume "(l, sc) \<in> set (AList.update (percent1 r) s sc0)"
    then have "(l, sc) = (percent1 r, s) \<or> (l, sc) \<in> set sc0"
      using set_update_subset[of "percent1 r" s sc0] by auto
    then show ?thesis using s by auto
  next
    assume "\<exists>r \<in> set rates. l = percent1 r \<and> scenario_of v b years r = Inr sc"
    then show ?thesis by auto
  qed
qed

lemma rates_loop_distinct:
  assumes "rates_loop v b years rates sc0 = Inr res" and "distinct (map fst sc0)"
  shows "distinct (map fst res)"
  using assms
proof (induction rates arbitrary: sc0)
  case Nil
  then show ?case by simp
next
  case (Cons r rates)
  from Cons.prems(1) obtain s where
    rest: "rates_loop v b years rates (AList.update (percent1 r) s sc0) = Inr res"
    by (auto split: sum.splits)
  show ?case using Cons.IH[OF rest] Cons.prems(2) by (simp add: AList.distinct_update)
qed

lemma rates_loop_keys:
  assumes "rates_loop v b years rates sc0 = Inr res"
  shows "fst ` set res = fst ` set sc0 \<union> percent1 ` set rates"
  using assms
proof (induction rates arbitrary: sc0)
  case Nil
  then show ?case by simp
next
  case (Cons r rates)
  from Cons.prems(1) obtain s where
    rest: "rates_loop v b years rates (AList.update (percent1 r) s sc0) = Inr res"
    by (auto split: sum.splits)
  show ?case using Cons.IH[OF rest] by (auto simp: AList.dom_update)
qed

lemma rates_loop_other:
  assumes "rates_loop v b years rates sc0 = Inr res" and "l \<notin> percent1 ` set rates"
  shows "map_of res l = map_of sc0 l"
  using assms
proof (induction rates arbitrary: sc0)
  case Nil
  then show ?case by simp
next
  case (Cons r rates)
  from Cons.prems(1) obtain s where
    rest: "rates_loop v b years rates (AList.update (percent1 r) s sc0) = Inr res"
    by (auto split: sum.splits)
  have "l \<notin> percent1 ` set rates" and "l \<noteq> percent1 r" using Cons.prems(2) by auto
  then show ?case using Cons.IH[OF rest] by (simp add: AList.update_conv')
qed

lemma rates_loop_last:
  assumes "rates_loop v b years (xs @ r # ys) sc0 = Inr res"
    and "percent1 r \<notin> percent1 ` set ys"
  shows "\<exists>sc. scenario_of v b years r = Inr sc \<and> map_of res (percent1 r) = Some sc"
  using assms(1)
proof (induction xs arbitrary: sc0)
  case Nil
  from Nil obtain s where s: "scenario_of v b years r = Inr s"
    and rest: "rates_loop v b years ys (AList.update (percent1 r) s sc0) = Inr res"
    by (auto split: sum.splits)
  have "map_of res (percent1 r) = map_of (AList.update (percent1 r) s sc0) (percent1 r)"
    using rest assms(2) by (rule rates_loop_other)
  then show ?case using s by (simp add: AList.update_conv')
next
  case (Cons x xs)
  from Cons.prems obtain s where
    rest: "rates_loop v b years (xs @ r # ys) (AList.update (percent1 x) s sc0) = Inr res"
    by (auto split: sum.splits)
  show ?case using Cons.IH[OF rest] .
qed

lemma distinct_one_entry:
  assumes "distinct (map fst al)" and "k \<in> fst ` set al"
  shows "length (filter (\<lambda>e. fst e = k) al) = 1"
  using assms by (induction al) (auto simp: filter_empty_conv rev_image_eqI)

text \<open>
  Claim C4. With a horizon \<open>years \<ge> 0\<close> the aggregator returns a mapping. Every
  scenario of a returned mapping belongs to one of the requested rates \<open>r\<close>, is stored
  under that rate's name, and reports: the annual withdrawal \<open>v * r\<close>; a monthly
  withdrawal of a twelfth of it; the trajectory of the retirement loop run with that one
  withdrawal, so that the entry of year \<open>y\<close> is the floor at 0 of \<open>y\<close> rounds of
  \<open>c \<mapsto> (c - v * r) * (1 + blended rate)\<close> from \<open>v\<close>, the same amount subtracted in every
  round; the last entry of the trajectory as the final value; and as blended rate the sum
  of allocation times rate over the retirement assets, whatever the withdrawal rate.
\<close>

theorem scenario_fields:
  "(0 \<le> years \<longrightarrow>
      (\<exists>scenarios. calculate_withdrawal_scenarios v rates years assets = Inr scenarios))
   \<and> (calculate_withdrawal_scenarios v rates years assets = Inr scenarios
        \<and> (label, sc) \<in> set scenarios \<longrightarrow>
      (\<exists>r \<in> set rates. label = percent1 r
         \<and> annual_withdrawal sc = v * r
         \<and> monthly_withdrawal sc = annual_withdrawal sc / 12
         \<and> portfolio_values sc = drawdown v (v * r) (blended_rate sc) years
         \<and> (1 \<le> y \<and> int y \<le> years \<longrightarrow>
               portfolio_values sc ! y =
                 max 0 (((\<lambda>c. (c - v * r) * (1 + blended_rate sc)) ^^ y) v))
         \<and> portfolio_values sc \<noteq> []
         \<and> final_value sc = last (portfolio_values sc)
         \<and> blended_rate sc = (\<Sum>p\<leftarrow>assets. allocation p * r_rate p)))"
proof (intro conjI impI)
  assume "0 \<le> years"
  then show "\<exists>scenarios. calculate_withdrawal_scenarios v rates years assets = Inr scenarios"
    unfolding calculate_withdrawal_scenarios_def by (rule rates_loop_total)
next
  assume a: "calculate_withdrawal_scenarios v rates years assets = Inr scenarios
        \<and> (label, sc) \<in> set scenarios"
  define b where "b = blended_growth_rate assets"
  have loop: "rates_loop v b years rates [] = Inr scenarios"
    using a by (simp add: calculate_withdrawal_scenarios_def b_def)
  from rates_loop_entries[OF loop] a
  obtain r where r: "r \<in> set rates" "label = percent1 r" "scenario_of v b years r = Inr sc"
    by auto
  note f = scenario_of_fields[OF r(3)]
  have yrs: "0 \<le> years" using r(3) by (rule scenario_of_years)
  have nth: "1 \<le> y \<and> int y \<le> years \<longrightarrow>
               portfolio_values sc ! y = max 0 (((\<lambda>c. (c - v * r) * (1 + b)) ^^ y) v)"
  proof
    assume "1 \<le> y \<and> int y \<le> years"
    then have "1 \<le> y" and "y \<le> nat years" using yrs by linarith+
    then have "drawdown v (v * r) b years ! y = max 0 (balance v (v * r) b y)"
      by (rule drawdown_nth[OF yrs])
    then show "portfolio_values sc ! y = max 0 (((\<lambda>c. (c - v * r) * (1 + b)) ^^ y) v)"
      using f by (simp add: balance_def)
  qed
  have bsc: "blended_rate sc = b" using f by blast
  have bsum: "b = (\<Sum>p\<leftarrow>assets. allocation p * r_rate p)"
    by (simp add: b_def blended_growth_rate_def)
  have monthly: "monthly_withdrawal sc = annual_withdrawal sc / 12" using f by simp
  have "label = percent1 r
         \<and> annual_withdrawal sc = v * r
         \<and> monthly_withdrawal sc = annual_withdrawal sc / 12
         \<and> portfolio_values sc = drawdown v (v * r) (blended_rate sc) years
         \<and> (1 \<le> y \<and> int y \<le> years \<longrightarrow>
               portfolio_values sc ! y =
                 max 0 (((\<lambda>c. (c - v * r) * (1 + blended_rate sc)) ^^ y) v))
         \<and> portfolio_values sc \<noteq> []
         \<and> final_value sc = last (portfolio_values sc)
         \<and> blended_rate sc = (\<Sum>p\<leftarrow>assets. allocation p * r_rate p)"
    unfolding bsc using f nth r(2) bsum monthly by blast
  then show "\<exists>r \<in> set rates. label = percent1 r
         \<and> annual_withdrawal sc = v * r
         \<and> monthly_withdrawal sc = annual_withdrawal sc / 12
         \<and> portfolio_values sc = drawdown v (v * r) (blended_rate sc) years
         \<and> (1 \<le> y \<and> int y \<le> years \<longrightarrow>
               portfolio_values sc ! y =
                 max 0 (((\<lambda>c. (c - v * r) * (1 + blended_rate sc)) ^^ y) v))
         \<and> portfolio_values sc \<noteq> []
         \<and> final_value sc = last (portfolio_values sc)
         \<and> blended_rate sc = (\<Sum>p\<leftarrow>assets. allocation p * r_rate p)"
    using r(1) by blast
qed


text \<open>
  The theorem at a starting value of 1000, the single rate 10 percent, two years and two
  assets of one half each, at 0 and at 20 percent: blended rate 10 percent, withdrawal
  100, trajectory 1000, 990, 979.
\<close>

theorem scenario_fields_witness:
  "(0::int) \<le> 2
   \<and> calculate_withdrawal_scenarios 1000 [1 / 10] 2
        [\<lparr>r_name = ''Bonds'', allocation = 1 / 2, r_rate = 0\<rparr>,
         \<lparr>r_name = ''Stocks'', allocation = 1 / 2, r_rate = 1 / 5\<rparr>]
      = Inr [(''10.0%'',
              \<lparr>annual_withdrawal = 100, monthly_withdrawal = 25 / 3,
                 portfolio_values = [1000, 990, 979], final_value = 979,
                 blended_rate = 1 / 10\<rparr>)]
   \<and> (\<exists>r \<in> set [1 / 10 :: real]. ''10.0%'' = percent1 r
         \<and> (100::real) = 1000 * r
         \<and> (25 / 3 :: real) = 100 / 12
         \<and> [1000, 990, 979] = drawdown 1000 (1000 * r) (1 / 10) 2
         \<and> [1000, 990, 979 :: real] ! 2 =
               max 0 (((\<lambda>c. (c - 1000 * r) * (1 + 1 / 10)) ^^ 2) 1000)
         \<and> (979::real) = last [1000, 990, 979]
         \<and> (1 / 10 :: real) = (\<Sum>p\<leftarrow>[\<lparr>r_name = ''Bonds'', allocation = 1 / 2, r_rate = 0\<rparr>,
         \<lparr>r_name = ''Stocks'', allocation = 1 / 2, r_rate = 1 / 5\<rparr>]. allocation p * r_rate p))"
proof -
  have run: "calculate_withdrawal_scenarios 1000 [1 / 10] 2
        [\<lparr>r_name = ''Bonds'', allocation = 1 / 2, r_rate = 0\<rparr>,
         \<lparr>r_name = ''Stocks'', allocation = 1 / 2, r_rate = 1 / 5\<rparr>]
      = Inr [(''10.0%'',
              \<lparr>annual_withdrawal = 100, monthly_withdrawal = 25 / 3,
                 portfolio_values = [1000, 990, 979], final_value = 979,
                 blended_rate = 1 / 10\<rparr>)]"
    by code_simp
  have d: "drawdown 1000 100 (1 / 10) 2 = [1000, 990, 979]"
    by code_simp
  have l: "percent1 (1 / 10) = ''10.0%''"
    by (simp add: percent1_def round_half_even_def)
  show ?thesis
    using scenario_fields
      [of 2 1000 "[1 / 10]"
          "[\<lparr>r_name = ''Bonds'', allocation = 1 / 2, r_rate = 0\<rparr>,
            \<lparr>r_name = ''Stocks'', allocation = 1 / 2, r_rate = 1 / 5\<rparr>]"
          "[(''10.0%'',
              \<lparr>annual_withdrawal = 100, monthly_withdrawal = 25 / 3,
                 portfolio_values = [1000, 990, 979], final_value = 979,
                 blended_rate = 1 / 10\<rparr>)]"
          "''10.0%''"
          "\<lparr>annual_withdrawal = 100, monthly_withdrawal = 25 / 3,
                 portfolio_values = [1000, 990, 979], final_value = 979,
                 blended_rate = 1 / 10\<rparr>" 2]
    by (simp add: run d l numeral_2_eq_2)
qed

text \<open>
  Claim C6. For the empty list of rates the aggregator returns the empty mapping. With a
  horizon \<open>years \<ge> 0\<close> it returns a mapping whose keys are pairwise distinct and are the
  names of the requested rates; when two requested rates have the same name, the
  mapping holds one entry under that name; and the entry under a name is the scenario of
  the last requested rate with that name.
\<close>

theorem scenarios_empty_and_duplicates:
  "calculate_withdrawal_scenarios v [] years assets = Inr []
   \<and> (0 \<le> years \<longrightarrow>
        (\<exists>scenarios. calculate_withdrawal_scenarios v rates years assets = Inr scenarios
           \<and> distinct (map fst scenarios)
           \<and> fst ` set scenarios = percent1 ` set rates
           \<and> (i < j \<and> j < length rates \<and> percent1 (rates ! i) = percent1 (rates ! j) \<longrightarrow>
                length (filter (\<lambda>e. fst e = percent1 (rates ! j)) scenarios) = 1)
           \<and> (j < length rates
                \<and> percent1 (rates ! j) \<notin> percent1 ` set (drop (Suc j) rates) \<longrightarrow>
                (\<exists>sc. scenario_of v (blended_growth_rate assets) years (rates ! j) = Inr sc
                   \<and> map_of scenarios (percent1 (rates ! j)) = Some sc))))"
proof (intro conjI impI)
  show "calculate_withdrawal_scenarios v [] years assets = Inr []"
    by (simp add: calculate_withdrawal_scenarios_def)
next
  assume yrs: "0 \<le> years"
  define b where "b = blended_growth_rate assets"
  obtain scenarios where loop: "rates_loop v b years rates [] = Inr scenarios"
    using rates_loop_total[OF yrs] by blast
  have run: "calculate_withdrawal_scenarios v rates years assets = Inr scenarios"
    using loop by (simp add: calculate_withdrawal_scenarios_def b_def)
  have dist: "distinct (map fst scenarios)"
    using rates_loop_distinct[OF loop] by simp
  have keys: "fst ` set scenarios = percent1 ` set rates"
    using rates_loop_keys[OF loop] by simp
  have one: "i < j \<and> j < length rates \<and> percent1 (rates ! i) = percent1 (rates ! j) \<longrightarrow>
                length (filter (\<lambda>e. fst e = percent1 (rates ! j)) scenarios) = 1"
  proof
    assume "i < j \<and> j < length rates \<and> percent1 (rates ! i) = percent1 (rates ! j)"
    then have "percent1 (rates ! j) \<in> fst ` set scenarios" by (simp add: keys)
    with dist show "length (filter (\<lambda>e. fst e = percent1 (rates ! j)) scenarios) = 1"
      by (rule distinct_one_entry)
  qed
  have last: "j < length rates
                \<and> percent1 (rates ! j) \<notin> percent1 ` set (drop (Suc j) rates) \<longrightarrow>
                (\<exists>sc. scenario_of v b years (rates ! j) = Inr sc
                   \<and> map_of scenarios (percent1 (rates ! j)) = Some sc)"
  proof
    assume a: "j < length rates
                \<and> percent1 (rates ! j) \<notin> percent1 ` set (drop (Suc j) rates)"
    then have split: "rates = take j rates @ rates ! j # drop (Suc j) rates"
      by (simp add: id_take_nth_drop)
    have nl: "percent1 (rates ! j) \<notin> percent1 ` set (drop (Suc j) rates)"
      using a by blast
    have "rates_loop v b years (take j rates @ rates ! j # drop (Suc j) rates) [] = Inr scenarios"
      using loop split by simp
    then show "\<exists>sc. scenario_of v b years (rates ! j) = Inr sc
                   \<and> map_of scenarios (percent1 (rates ! j)) = Some sc"
      using nl by (rule rates_loop_last)
  qed
  show "\<exists>scenarios. calculate_withdrawal_scenarios v rates years assets = Inr scenarios
           \<and> distinct (map fst scenarios)
           \<and> fst ` set scenarios = percent1 ` set rates
           \<and> (i < j \<and> j < length rates \<and> percent1 (rates ! i) = percent1 (rates ! j) \<longrightarrow>
                length (filter (\<lambda>e. fst e = percent1 (rates ! j)) scenarios) = 1)
           \<and> (j < length rates
                \<and> percent1 (rates ! j) \<notin> percent1 ` set (drop (Suc j) rates) \<longrightarrow>
                (\<exists>sc. scenario_of v (blended_growth_rate assets) years (rates ! j) = Inr sc
                   \<and> map_of scenarios (percent1 (rates ! j)) = Some sc))"
    using run dist keys one last unfolding b_def by blast
qed


text \<open>
  The theorem for the rates 10, 5 and 10 percent, requested in that order: two entries,
  one of them under \<open>10.0%\<close>.
\<close>

theorem scenarios_empty_and_duplicates_witness:
  "(0::int) \<le> 1
   \<and> calculate_withdrawal_scenarios 1000 [1 / 10, 1 / 20, 1 / 10] 1
        [\<lparr>r_name = ''Bonds'', allocation = 1, r_rate = 0\<rparr>]
      = Inr [(''10.0%'',
              \<lparr>annual_withdrawal = 100, monthly_withdrawal = 25 / 3,
                 portfolio_values = [1000, 900], final_value = 900, blended_rate = 0\<rparr>),
             (''5.0%'',
              \<lparr>annual_withdrawal = 50, monthly_withdrawal = 25 / 6,
                 portfolio_values = [1000, 950], final_value = 950, blended_rate = 0\<rparr>)]
   \<and> (0::nat) < 2 \<and> 2 < length [1 / 10, 1 / 20, 1 / 10 :: real]
   \<and> percent1 ([1 / 10, 1 / 20, 1 / 10] ! 0) = percent1 ([1 / 10, 1 / 20, 1 / 10] ! 2)
   \<and> percent1 ([1 / 10, 1 / 20, 1 / 10] ! 2)
        \<notin> percent1 ` set (drop (Suc 2) [1 / 10, 1 / 20, 1 / 10])
   \<and> (\<exists>scenarios.
         calculate_withdrawal_scenarios 1000 [1 / 10, 1 / 20, 1 / 10] 1
           [\<lparr>r_name = ''Bonds'', allocation = 1, r_rate = 0\<rparr>] = Inr scenarios
         \<and> length (filter (\<lambda>e. fst e = ''10.0%'') scenarios) = 1
         \<and> (\<exists>sc. scenario_of 1000 0 1 (1 / 10) = Inr sc
               \<and> map_of scenarios ''10.0%'' = Some sc))"
proof -
  have run: "calculate_withdrawal_scenarios 1000 [1 / 10, 1 / 20, 1 / 10] 1
        [\<lparr>r_name = ''Bonds'', allocation = 1, r_rate = 0\<rparr>]
      = Inr [(''10.0%'',
              \<lparr>annual_withdrawal = 100, monthly_withdrawal = 25 / 3,
                 portfolio_values = [1000, 900], final_value = 900, blended_rate = 0\<rparr>),
             (''5.0%'',
              \<lparr>annual_withdrawal = 50, monthly_withdrawal = 25 / 6,
                 portfolio_values = [1000, 950], final_value = 950, blended_rate = 0\<rparr>)]"
    by code_simp
  have l: "percent1 (1 / 10) = ''10.0%''"
    by (simp add: percent1_def round_half_even_def)
  have b: "blended_growth_rate [\<lparr>r_name = ''Bonds'', allocation = 1, r_rate = 0\<rparr>] = 0"
    by (simp add: blended_growth_rate_def)
  show ?thesis
    using scenarios_empty_and_duplicates
      [of 1000 1 "[\<lparr>r_name = ''Bonds'', allocation = 1, r_rate = 0\<rparr>]"
          "[1 / 10, 1 / 20, 1 / 10]" 0 2]
    by (simp add: run l b)
qed



section \<open>Properties of the configuration export\<close>






end
